theory Spec2Isabelle
  imports Main
begin

section \<open>The synth\_greenpak4 script pass (techlibs/greenpak4/synth\_greenpak4.cc)\<close>

text \<open>
  The pass parses its options into a handful of locals, rejects a design that is not fully
  selected and a part name it does not know, and then runs eight labelled blocks of
  commands on the design. Everything it does to the design goes through
  \<^verbatim>\<open>Pass::call(design, command)\<close>, and whether a block runs is decided by
  \<^verbatim>\<open>check_label\<close>, which updates the local \<^verbatim>\<open>active\<close> through a reference.

  The embedding keeps the options as a record, threads the local \<^verbatim>\<open>active\<close> through the
  blocks explicitly, and records what the pass does as a trace of events: each call of
  \<^verbatim>\<open>check_label\<close> with the value it returned, and each command handed to
  \<^verbatim>\<open>Pass::call\<close>. The commands themselves are other passes and are not modelled.
\<close>

subsection \<open>Options, events, errors\<close>

text \<open>The locals that the option loop of \<^verbatim>\<open>execute\<close> fills in (lines 122-127).\<close>

record config =
  top_opt :: string
  part :: string
  run_from :: string
  run_to :: string
  json_file :: string
  flatten :: bool
  retime :: bool

text \<open>
  \<open>Checked l r\<close>: \<^verbatim>\<open>check_label\<close> was called for label \<open>l\<close> and returned \<open>r\<close>.
  \<open>Called c\<close>: \<^verbatim>\<open>Pass::call(design, c)\<close> was issued.
\<close>

datatype event = Checked string bool | Called string

text \<open>The two \<^verbatim>\<open>log_cmd_error\<close> exits of \<^verbatim>\<open>execute\<close> (lines 165 and 168).\<close>

datatype error = Not_fully_selected | Invalid_part string

record run_state =
  active :: bool
  trace :: "event list"

subsection \<open>check\_label (lines 28-35)\<close>

text \<open>
  The function assigns to \<^verbatim>\<open>active\<close> through the reference and returns it, so one value
  is both the new content of the variable and the result. The second test runs after the
  first and on the variable the first may have set.
\<close>

definition check_label :: "bool \<Rightarrow> string \<Rightarrow> string \<Rightarrow> string \<Rightarrow> bool" where
  "check_label active0 rfrom rto label =
     (let a1 = (if label = rfrom then True else active0);
          a2 = (if label = rto then False else a1)
      in a2)"

text \<open>The call as \<^verbatim>\<open>execute\<close> makes it: on its local, with its run range, logged.\<close>

definition check_label_st :: "config \<Rightarrow> string \<Rightarrow> run_state \<Rightarrow> bool \<times> run_state" where
  "check_label_st cfg label s =
     (let r = check_label (active s) (run_from cfg) (run_to cfg) label
      in (r, s\<lparr>active := r, trace := trace s @ [Checked label r]\<rparr>))"

definition Pass_call :: "string \<Rightarrow> run_state \<Rightarrow> run_state" where
  "Pass_call cmd s = s\<lparr>trace := trace s @ [Called cmd]\<rparr>"

text \<open>
  \<^verbatim>\<open>stringf("... %s", x.c_str())\<close> prints the characters of \<open>x\<close> before its first NUL.
\<close>

definition c_str :: "string \<Rightarrow> string" where
  "c_str x = takeWhile (\<lambda>c. c \<noteq> CHR 0x00) x"

subsection \<open>The eight blocks (lines 175-238)\<close>

definition stage_begin :: "config \<Rightarrow> run_state \<Rightarrow> run_state" where
  "stage_begin cfg s0 =
     (case check_label_st cfg ''begin'' s0 of (r, s) \<Rightarrow>
        if r then
          (let s = Pass_call ''read_verilog -lib +/greenpak4/cells_sim.v'' s;
               s = Pass_call (''hierarchy -check '' @ c_str (top_opt cfg)) s
           in s)
        else s)"

text \<open>
  \<^verbatim>\<open>if (flatten && check_label(...))\<close>: the right operand of \<^verbatim>\<open>&&\<close> is not evaluated
  when \<^verbatim>\<open>flatten\<close> is false.
\<close>

definition stage_flatten :: "config \<Rightarrow> run_state \<Rightarrow> run_state" where
  "stage_flatten cfg s0 =
     (if flatten cfg then
        (case check_label_st cfg ''flatten'' s0 of (r, s) \<Rightarrow>
           if r then
             (let s = Pass_call ''proc'' s;
                  s = Pass_call ''flatten'' s;
                  s = Pass_call ''tribuf -logic'' s
              in s)
           else s)
      else s0)"

definition stage_coarse :: "config \<Rightarrow> run_state \<Rightarrow> run_state" where
  "stage_coarse cfg s0 =
     (case check_label_st cfg ''coarse'' s0 of (r, s) \<Rightarrow>
        if r then Pass_call ''synth -run coarse'' s else s)"

definition stage_fine :: "config \<Rightarrow> run_state \<Rightarrow> run_state" where
  "stage_fine cfg s0 =
     (case check_label_st cfg ''fine'' s0 of (r, s) \<Rightarrow>
        if r then
          (let s = Pass_call ''greenpak4_counters'' s;
               s = Pass_call ''clean'' s;
               s = Pass_call ''opt -fast -mux_undef -undriven -fine'' s;
               s = Pass_call ''memory_map'' s;
               s = Pass_call ''opt -undriven -fine'' s;
               s = Pass_call ''techmap'' s;
               s = Pass_call ''dfflibmap -prepare -liberty +/greenpak4/gp_dff.lib'' s;
               s = Pass_call ''opt -fast'' s;
               s = (if retime cfg then Pass_call ''abc -dff'' s else s)
           in s)
        else s)"

definition stage_map_luts :: "config \<Rightarrow> run_state \<Rightarrow> run_state" where
  "stage_map_luts cfg s0 =
     (case check_label_st cfg ''map_luts'' s0 of (r, s) \<Rightarrow>
        if r then
          (let s = (if part cfg = ''SLG46140V'' then Pass_call ''nlutmap -luts 0,6,8,2'' s else s);
               s = (if part cfg = ''SLG46620V'' then Pass_call ''nlutmap -luts 2,8,16,2'' s else s);
               s = (if part cfg = ''SLG46621V'' then Pass_call ''nlutmap -luts 2,8,16,2'' s else s);
               s = Pass_call ''clean'' s
           in s)
        else s)"

definition stage_map_cells :: "config \<Rightarrow> run_state \<Rightarrow> run_state" where
  "stage_map_cells cfg s0 =
     (case check_label_st cfg ''map_cells'' s0 of (r, s) \<Rightarrow>
        if r then
          (let s = Pass_call ''dfflibmap -liberty +/greenpak4/gp_dff.lib'' s;
               s = Pass_call ''techmap -map +/greenpak4/cells_map.v'' s;
               s = Pass_call ''dffinit -ff GP_DFF Q INIT'' s;
               s = Pass_call ''dffinit -ff GP_DFFR Q INIT'' s;
               s = Pass_call ''dffinit -ff GP_DFFS Q INIT'' s;
               s = Pass_call ''dffinit -ff GP_DFFSR Q INIT'' s;
               s = Pass_call ''clean'' s
           in s)
        else s)"

definition stage_check :: "config \<Rightarrow> run_state \<Rightarrow> run_state" where
  "stage_check cfg s0 =
     (case check_label_st cfg ''check'' s0 of (r, s) \<Rightarrow>
        if r then
          (let s = Pass_call ''hierarchy -check'' s;
               s = Pass_call ''stat'' s;
               s = Pass_call ''check -noinit'' s
           in s)
        else s)"

definition stage_json :: "config \<Rightarrow> run_state \<Rightarrow> run_state" where
  "stage_json cfg s0 =
     (case check_label_st cfg ''json'' s0 of (r, s) \<Rightarrow>
        if r then
          (let s = Pass_call ''splitnets'' s;
               s = (if json_file cfg \<noteq> [] then Pass_call (''write_json '' @ c_str (json_file cfg)) s
                    else s)
           in s)
        else s)"

definition run_script :: "config \<Rightarrow> run_state \<Rightarrow> run_state" where
  "run_script cfg s0 =
     (let s = stage_begin cfg s0;
          s = stage_flatten cfg s;
          s = stage_coarse cfg s;
          s = stage_fine cfg s;
          s = stage_map_luts cfg s;
          s = stage_map_cells cfg s;
          s = stage_check cfg s;
          s = stage_json cfg s
      in s)"

subsection \<open>execute, after option parsing (lines 164-240)\<close>

text \<open>
  \<open>full_selection\<close> is the answer of \<^verbatim>\<open>design->full_selection()\<close>. The result is the trace
  of the run and the error that ended it, if one did: \<^verbatim>\<open>log_cmd_error\<close> does not return.
\<close>

definition execute :: "config \<Rightarrow> bool \<Rightarrow> event list \<times> error option" where
  "execute cfg full_selection =
     (if \<not> full_selection then ([], Some Not_fully_selected)
      else if part cfg \<noteq> ''SLG46140V'' \<and> part cfg \<noteq> ''SLG46620V'' \<and> part cfg \<noteq> ''SLG46621V''
        then ([], Some (Invalid_part (part cfg)))
      else (trace (run_script cfg \<lparr>active = (run_from cfg = []), trace = []\<rparr>), None))"

subsection \<open>Reading a trace\<close>

text \<open>The commands run on the design, in order.\<close>

fun calls :: "event list \<Rightarrow> string list" where
  "calls [] = []"
| "calls (Called c # es) = c # calls es"
| "calls (Checked l r # es) = calls es"

text \<open>The labels handed to \<^verbatim>\<open>check_label\<close>, in order.\<close>

fun checks :: "event list \<Rightarrow> string list" where
  "checks [] = []"
| "checks (Called c # es) = checks es"
| "checks (Checked l r # es) = l # checks es"

text \<open>
  How often a call of \<^verbatim>\<open>check_label\<close> found \<^verbatim>\<open>active\<close> true and left it false; the
  first argument is the value of \<^verbatim>\<open>active\<close> before the trace.
\<close>

fun deactivations :: "bool \<Rightarrow> event list \<Rightarrow> nat" where
  "deactivations a [] = 0"
| "deactivations a (Called c # es) = deactivations a es"
| "deactivations a (Checked l r # es) = (if a \<and> \<not> r then 1 else 0) + deactivations r es"

text \<open>
  How often a call of \<^verbatim>\<open>check_label\<close> found \<^verbatim>\<open>active\<close> false and left it true.
\<close>

fun activations :: "bool \<Rightarrow> event list \<Rightarrow> nat" where
  "activations a [] = 0"
| "activations a (Called c # es) = activations a es"
| "activations a (Checked l r # es) = (if \<not> a \<and> r then 1 else 0) + activations r es"

subsection \<open>The script as a table of stages\<close>

text \<open>
  The commands of each block, in the order the block issues them. The flag tests inside a
  block (\<^verbatim>\<open>retime\<close>, the three tests on \<^verbatim>\<open>part\<close>, \<^verbatim>\<open>json_file.empty()\<close>) are kept.
\<close>

type_synonym stage = "string \<times> string list"

definition begin_cmds :: "config \<Rightarrow> string list" where
  "begin_cmds cfg =
     [''read_verilog -lib +/greenpak4/cells_sim.v'',
      ''hierarchy -check '' @ c_str (top_opt cfg)]"

definition flatten_cmds :: "string list" where
  "flatten_cmds = [''proc'', ''flatten'', ''tribuf -logic'']"

definition coarse_cmds :: "string list" where
  "coarse_cmds = [''synth -run coarse'']"

definition fine_cmds :: "config \<Rightarrow> string list" where
  "fine_cmds cfg =
     [''greenpak4_counters'', ''clean'', ''opt -fast -mux_undef -undriven -fine'',
      ''memory_map'', ''opt -undriven -fine'', ''techmap'',
      ''dfflibmap -prepare -liberty +/greenpak4/gp_dff.lib'', ''opt -fast'']
     @ (if retime cfg then [''abc -dff''] else [])"

definition map_luts_cmds :: "config \<Rightarrow> string list" where
  "map_luts_cmds cfg =
     (if part cfg = ''SLG46140V'' then [''nlutmap -luts 0,6,8,2''] else [])
     @ (if part cfg = ''SLG46620V'' then [''nlutmap -luts 2,8,16,2''] else [])
     @ (if part cfg = ''SLG46621V'' then [''nlutmap -luts 2,8,16,2''] else [])
     @ [''clean'']"

definition map_cells_cmds :: "string list" where
  "map_cells_cmds =
     [''dfflibmap -liberty +/greenpak4/gp_dff.lib'',
      ''techmap -map +/greenpak4/cells_map.v'',
      ''dffinit -ff GP_DFF Q INIT'',
      ''dffinit -ff GP_DFFR Q INIT'',
      ''dffinit -ff GP_DFFS Q INIT'',
      ''dffinit -ff GP_DFFSR Q INIT'',
      ''clean'']"

definition check_cmds :: "string list" where
  "check_cmds = [''hierarchy -check'', ''stat'', ''check -noinit'']"

definition json_cmds :: "config \<Rightarrow> string list" where
  "json_cmds cfg =
     ''splitnets''
     # (if json_file cfg \<noteq> [] then [''write_json '' @ c_str (json_file cfg)] else [])"

text \<open>The stages that follow \<open>flatten\<close>, the full table, and the labels of the script.\<close>

definition later_stages :: "config \<Rightarrow> stage list" where
  "later_stages cfg =
     [(''coarse'', coarse_cmds), (''fine'', fine_cmds cfg), (''map_luts'', map_luts_cmds cfg),
      (''map_cells'', map_cells_cmds), (''check'', check_cmds), (''json'', json_cmds cfg)]"

definition all_stages :: "config \<Rightarrow> stage list" where
  "all_stages cfg = (''begin'', begin_cmds cfg) # (''flatten'', flatten_cmds) # later_stages cfg"

definition stage_labels :: "string list" where
  "stage_labels =
     [''begin'', ''flatten'', ''coarse'', ''fine'', ''map_luts'', ''map_cells'', ''check'', ''json'']"

text \<open>
  The stages whose label \<^verbatim>\<open>execute\<close> hands to \<^verbatim>\<open>check_label\<close>: all of them when
  \<^verbatim>\<open>flatten\<close> is set, all but \<open>flatten\<close> otherwise (line 181).
\<close>

definition consulted_stages :: "config \<Rightarrow> stage list" where
  "consulted_stages cfg =
     (''begin'', begin_cmds cfg)
     # (if flatten cfg then [(''flatten'', flatten_cmds)] else [])
     @ later_stages cfg"

text \<open>
  The stage sequencer in the words of the specification: walk a table of stages in order,
  ask the tracker at each stage whether its label flips the active state, and dispatch the
  body of the stage if the tracker answers active.
\<close>

fun sequencer :: "string \<Rightarrow> string \<Rightarrow> bool \<Rightarrow> stage list \<Rightarrow> event list" where
  "sequencer rfrom rto a [] = []"
| "sequencer rfrom rto a ((l, body) # rest) =
     (let r = check_label a rfrom rto l
      in Checked l r # (if r then map Called body else []) @ sequencer rfrom rto r rest)"

text \<open>A run in which every stage of a table is active: each label, then its body.\<close>

fun all_active :: "stage list \<Rightarrow> event list" where
  "all_active [] = []"
| "all_active ((l, body) # rest) = Checked l True # map Called body @ all_active rest"

text \<open>
  The consulted stages around \<open>fine\<close> and \<open>map_luts\<close>: those before \<open>fine\<close> and those
  after \<open>map_luts\<close>.
\<close>

definition early_stages :: "config \<Rightarrow> stage list" where
  "early_stages cfg =
     (''begin'', begin_cmds cfg)
     # (if flatten cfg then [(''flatten'', flatten_cmds)] else [])
     @ [(''coarse'', coarse_cmds)]"

definition late_stages :: "config \<Rightarrow> stage list" where
  "late_stages cfg =
     [(''map_cells'', map_cells_cmds), (''check'', check_cmds), (''json'', json_cmds cfg)]"

text \<open>The values \<^verbatim>\<open>execute\<close> gives its locals before it reads the options (lines 122-127).\<close>

definition default_config :: config where
  "default_config =
     \<lparr>top_opt = ''-auto-top'', part = ''SLG46621V'', run_from = [], run_to = [],
      json_file = [], flatten = True, retime = False\<rparr>"

section \<open>Each block against the table\<close>

lemma stage_begin_active:
  "active (stage_begin cfg s) = check_label (active s) (run_from cfg) (run_to cfg) ''begin''"
  by (simp add: stage_begin_def check_label_st_def Pass_call_def Let_def)

lemma stage_begin_trace:
  "trace (stage_begin cfg s) =
     trace s @ sequencer (run_from cfg) (run_to cfg) (active s) [(''begin'', begin_cmds cfg)]"
  by (simp add: stage_begin_def check_label_st_def Pass_call_def Let_def begin_cmds_def)

lemma stage_flatten_active:
  "active (stage_flatten cfg s) =
     (if flatten cfg then check_label (active s) (run_from cfg) (run_to cfg) ''flatten''
      else active s)"
  by (simp add: stage_flatten_def check_label_st_def Pass_call_def Let_def)

lemma stage_flatten_trace:
  "trace (stage_flatten cfg s) =
     trace s @ sequencer (run_from cfg) (run_to cfg) (active s)
       (if flatten cfg then [(''flatten'', flatten_cmds)] else [])"
  by (simp add: stage_flatten_def check_label_st_def Pass_call_def Let_def flatten_cmds_def)

lemma stage_coarse_active:
  "active (stage_coarse cfg s) = check_label (active s) (run_from cfg) (run_to cfg) ''coarse''"
  by (simp add: stage_coarse_def check_label_st_def Pass_call_def Let_def)

lemma stage_coarse_trace:
  "trace (stage_coarse cfg s) =
     trace s @ sequencer (run_from cfg) (run_to cfg) (active s) [(''coarse'', coarse_cmds)]"
  by (simp add: stage_coarse_def check_label_st_def Pass_call_def Let_def coarse_cmds_def)

lemma stage_fine_active:
  "active (stage_fine cfg s) = check_label (active s) (run_from cfg) (run_to cfg) ''fine''"
  by (simp add: stage_fine_def check_label_st_def Pass_call_def Let_def)

lemma stage_fine_trace:
  "trace (stage_fine cfg s) =
     trace s @ sequencer (run_from cfg) (run_to cfg) (active s) [(''fine'', fine_cmds cfg)]"
  by (simp add: stage_fine_def check_label_st_def Pass_call_def Let_def fine_cmds_def)

lemma stage_map_luts_active:
  "active (stage_map_luts cfg s) =
     check_label (active s) (run_from cfg) (run_to cfg) ''map_luts''"
  by (simp add: stage_map_luts_def check_label_st_def Pass_call_def Let_def)

lemma stage_map_luts_trace:
  "trace (stage_map_luts cfg s) =
     trace s @ sequencer (run_from cfg) (run_to cfg) (active s)
       [(''map_luts'', map_luts_cmds cfg)]"
  by (simp add: stage_map_luts_def check_label_st_def Pass_call_def Let_def map_luts_cmds_def)

lemma stage_map_cells_active:
  "active (stage_map_cells cfg s) =
     check_label (active s) (run_from cfg) (run_to cfg) ''map_cells''"
  by (simp add: stage_map_cells_def check_label_st_def Pass_call_def Let_def)

lemma stage_map_cells_trace:
  "trace (stage_map_cells cfg s) =
     trace s @ sequencer (run_from cfg) (run_to cfg) (active s)
       [(''map_cells'', map_cells_cmds)]"
  by (simp add: stage_map_cells_def check_label_st_def Pass_call_def Let_def map_cells_cmds_def)

lemma stage_check_active:
  "active (stage_check cfg s) = check_label (active s) (run_from cfg) (run_to cfg) ''check''"
  by (simp add: stage_check_def check_label_st_def Pass_call_def Let_def)

lemma stage_check_trace:
  "trace (stage_check cfg s) =
     trace s @ sequencer (run_from cfg) (run_to cfg) (active s) [(''check'', check_cmds)]"
  by (simp add: stage_check_def check_label_st_def Pass_call_def Let_def check_cmds_def)

lemma stage_json_trace:
  "trace (stage_json cfg s) =
     trace s @ sequencer (run_from cfg) (run_to cfg) (active s) [(''json'', json_cmds cfg)]"
  by (simp add: stage_json_def check_label_st_def Pass_call_def Let_def json_cmds_def)

lemmas stage_active =
  stage_begin_active stage_flatten_active stage_coarse_active stage_fine_active
  stage_map_luts_active stage_map_cells_active stage_check_active

lemmas stage_trace =
  stage_begin_trace stage_flatten_trace stage_coarse_trace stage_fine_trace
  stage_map_luts_trace stage_map_cells_trace stage_check_trace stage_json_trace

text \<open>The eight blocks in a row are the sequencer on the consulted stages.\<close>

lemma run_script_trace:
  "trace (run_script cfg s) =
     trace s @ sequencer (run_from cfg) (run_to cfg) (active s) (consulted_stages cfg)"
  unfolding run_script_def Let_def
  by (simp add: stage_trace stage_active consulted_stages_def later_stages_def Let_def)

lemma execute_sequencer:
  "execute cfg sel =
     (if \<not> sel then ([], Some Not_fully_selected)
      else if part cfg \<noteq> ''SLG46140V'' \<and> part cfg \<noteq> ''SLG46620V'' \<and> part cfg \<noteq> ''SLG46621V''
        then ([], Some (Invalid_part (part cfg)))
      else (sequencer (run_from cfg) (run_to cfg) (run_from cfg = []) (consulted_stages cfg),
            None))"
  by (simp add: execute_def run_script_trace)

section \<open>Facts about the tracker and the sequencer\<close>

lemma check_label_same: "check_label a l l x = (if x = l then False else a)"
  by (simp add: check_label_def)

lemma check_label_no_from: "x \<noteq> rf \<Longrightarrow> check_label False rf rt x = False"
  by (simp add: check_label_def)

lemma check_label_no_to: "x \<noteq> rt \<Longrightarrow> check_label a rf rt x = (if x = rf then True else a)"
  by (simp add: check_label_def)

lemma calls_append: "calls (xs @ ys) = calls xs @ calls ys"
  by (induction xs rule: calls.induct) simp_all

lemma calls_map_Called: "calls (map Called cs) = cs"
  by (induction cs) simp_all

lemma checks_append: "checks (xs @ ys) = checks xs @ checks ys"
  by (induction xs rule: checks.induct) simp_all

lemma checks_map_Called: "checks (map Called cs) = []"
  by (induction cs) simp_all

lemma sequencer_checks: "checks (sequencer rf rt a st) = map fst st"
  by (induction rf rt a st rule: sequencer.induct)
    (simp_all add: Let_def checks_append checks_map_Called)

lemma sequencer_closed_window: "calls (sequencer l l False st) = []"
  by (induction st) (auto simp: Let_def check_label_same calls_append)

lemma sequencer_closed_window_checks: "Checked x True \<notin> set (sequencer l l False st)"
  by (induction st) (auto simp: Let_def check_label_same)

lemma set_calls: "c \<in> set (calls tr) \<longleftrightarrow> Called c \<in> set tr"
  by (induction tr rule: calls.induct) auto

lemma calls_all_active: "calls (all_active st) = concat (map snd st)"
  by (induction st) (auto simp: calls_append calls_map_Called)

lemma sequencer_all_active:
  "\<forall>l \<in> fst ` set st. l \<noteq> [] \<Longrightarrow> sequencer [] [] True st = all_active st"
  by (induction st) (auto simp: check_label_def)

lemma sequencer_Called:
  "Called c \<in> set (sequencer rf rt a st) \<Longrightarrow> \<exists>s \<in> set st. c \<in> set (snd s)"
  by (induction rf rt a st rule: sequencer.induct) (auto simp: Let_def split: if_splits)

lemma sequencer_Checked: "Checked l r \<in> set (sequencer rf rt a st) \<Longrightarrow> l \<in> fst ` set st"
  by (induction rf rt a st rule: sequencer.induct) (auto simp: Let_def split: if_splits)

lemma sequencer_append:
  "\<exists>a'. sequencer rf rt a (xs @ ys) = sequencer rf rt a xs @ sequencer rf rt a' ys"
  by (induction rf rt a xs rule: sequencer.induct) (auto simp: Let_def)

lemma deactivations_Called: "deactivations a (map Called cs @ es) = deactivations a es"
  by (induction cs) simp_all

lemma activations_Called: "activations a (map Called cs @ es) = activations a es"
  by (induction cs) simp_all

lemma sequencer_never_closes:
  "rt \<notin> fst ` set st \<Longrightarrow> deactivations a (sequencer rf rt a st) = 0"
  by (induction st arbitrary: a) (auto simp: Let_def check_label_no_to deactivations_Called)

lemma sequencer_never_opens:
  "rf \<notin> fst ` set st \<Longrightarrow> activations a (sequencer rf rt a st) = 0"
  by (induction st arbitrary: a) (auto simp: Let_def check_label_def activations_Called)

lemma sequencer_stays_closed:
  "rf \<notin> fst ` set st \<Longrightarrow> calls (sequencer rf rt False st) = []"
  by (induction st) (auto simp: Let_def check_label_no_from)

lemma count_list_app: "count_list (xs @ ys) x = count_list xs x + count_list ys x"
  by (induction xs) simp_all

section \<open>Facts about the table\<close>

lemmas table_defs =
  consulted_stages_def later_stages_def all_stages_def begin_cmds_def flatten_cmds_def
  coarse_cmds_def fine_cmds_def map_luts_cmds_def map_cells_cmds_def check_cmds_def
  json_cmds_def

lemma trace_cases:
  "fst (execute cfg sel) = [] \<or>
   fst (execute cfg sel) =
     sequencer (run_from cfg) (run_to cfg) (run_from cfg = []) (consulted_stages cfg)"
  by (simp add: execute_sequencer)

lemma execute_accepted:
  assumes "part cfg = ''SLG46140V'' \<or> part cfg = ''SLG46620V'' \<or> part cfg = ''SLG46621V''"
  shows "execute cfg True =
     (sequencer (run_from cfg) (run_to cfg) (run_from cfg = []) (consulted_stages cfg), None)"
  using assms by (auto simp: execute_sequencer)

lemma consulted_labels: "fst ` set (consulted_stages cfg) \<subseteq> set stage_labels"
  by (auto simp: consulted_stages_def later_stages_def stage_labels_def)

lemma consulted_labels_eq:
  "map fst (consulted_stages cfg) =
     ''begin'' # (if flatten cfg then [''flatten''] else [])
     @ [''coarse'', ''fine'', ''map_luts'', ''map_cells'', ''check'', ''json'']"
  by (simp add: consulted_stages_def later_stages_def)

lemma consulted_labels_nonempty: "\<forall>l \<in> fst ` set (consulted_stages cfg). l \<noteq> []"
  by (simp add: consulted_stages_def later_stages_def)

lemma consulted_bodies:
  "concat (map snd (consulted_stages cfg)) =
     begin_cmds cfg @ (if flatten cfg then flatten_cmds else []) @ coarse_cmds
     @ fine_cmds cfg @ map_luts_cmds cfg @ map_cells_cmds @ check_cmds @ json_cmds cfg"
  by (simp add: consulted_stages_def later_stages_def)

lemma consulted_labels_noflatten:
  "\<not> flatten cfg \<Longrightarrow> ''flatten'' \<notin> fst ` set (consulted_stages cfg)"
  by (auto simp: consulted_stages_def later_stages_def)

lemma noflatten_bodies:
  assumes "\<not> flatten cfg" and "s \<in> set (consulted_stages cfg)"
  shows "''proc'' \<notin> set (snd s) \<and> ''flatten'' \<notin> set (snd s)
       \<and> ''tribuf -logic'' \<notin> set (snd s)"
  using assms by (auto simp: table_defs split: if_splits)

lemma consulted_split:
  "consulted_stages cfg =
     early_stages cfg
     @ (''fine'', fine_cmds cfg) # (''map_luts'', map_luts_cmds cfg) # late_stages cfg"
  by (simp add: consulted_stages_def later_stages_def early_stages_def late_stages_def)

lemma early_bodies: "s \<in> set (early_stages cfg) \<Longrightarrow> ''abc -dff'' \<notin> set (snd s)"
  by (auto simp: early_stages_def begin_cmds_def flatten_cmds_def coarse_cmds_def
      split: if_splits)

lemma no_abc_early: "Called ''abc -dff'' \<notin> set (sequencer rf rt a (early_stages cfg))"
  using sequencer_Called early_bodies by blast

lemma late_bodies: "s \<in> set (late_stages cfg) \<Longrightarrow> ''abc -dff'' \<notin> set (snd s)"
  by (auto simp: late_stages_def map_cells_cmds_def check_cmds_def json_cmds_def
      split: if_splits)

lemma no_abc_late: "Called ''abc -dff'' \<notin> set (sequencer rf rt a (late_stages cfg))"
  using sequencer_Called late_bodies by blast

lemma no_abc_map_luts: "''abc -dff'' \<notin> set (map_luts_cmds cfg)"
  by (simp add: map_luts_cmds_def)

lemma early_labels: "''fine'' \<notin> fst ` set (early_stages cfg)"
  by (auto simp: early_stages_def)

lemma no_fine_early: "Checked ''fine'' r \<notin> set (sequencer rf rt a (early_stages cfg))"
  using sequencer_Checked early_labels by blast

lemma late_labels: "''fine'' \<notin> fst ` set (late_stages cfg)"
  by (auto simp: late_stages_def)

lemma no_fine_late: "Checked ''fine'' r \<notin> set (sequencer rf rt a (late_stages cfg))"
  using sequencer_Checked late_labels by blast

lemma no_retime_bodies:
  "\<not> retime cfg \<Longrightarrow> s \<in> set (consulted_stages cfg) \<Longrightarrow> ''abc -dff'' \<notin> set (snd s)"
  by (auto simp: table_defs split: if_splits)

lemma no_retime_no_abc:
  assumes "\<not> retime cfg"
  shows "Called ''abc -dff'' \<notin> set (fst (execute cfg sel))"
  using trace_cases [of cfg sel] no_retime_bodies [OF assms] sequencer_Called
  by fastforce

lemma retime_fine:
  assumes rt: "retime cfg" and act: "Checked ''fine'' True \<in> set (fst (execute cfg sel))"
  shows "\<exists>pre post r. fst (execute cfg sel) =
           pre @ [Checked ''fine'' True, Called ''greenpak4_counters'', Called ''clean'',
             Called ''opt -fast -mux_undef -undriven -fine'', Called ''memory_map'',
             Called ''opt -undriven -fine'', Called ''techmap'',
             Called ''dfflibmap -prepare -liberty +/greenpak4/gp_dff.lib'',
             Called ''opt -fast'', Called ''abc -dff'', Checked ''map_luts'' r] @ post
         \<and> Called ''abc -dff'' \<notin> set pre \<and> Called ''abc -dff'' \<notin> set post"
proof -
  let ?rf = "run_from cfg" and ?rt = "run_to cfg"
  from act trace_cases [of cfg sel]
  have tr: "fst (execute cfg sel) = sequencer ?rf ?rt (?rf = []) (consulted_stages cfg)"
    by auto
  obtain a' where split:
    "sequencer ?rf ?rt (?rf = []) (consulted_stages cfg) =
       sequencer ?rf ?rt (?rf = []) (early_stages cfg)
       @ sequencer ?rf ?rt a'
           ((''fine'', fine_cmds cfg) # (''map_luts'', map_luts_cmds cfg) # late_stages cfg)"
    unfolding consulted_split using sequencer_append by blast
  define pre where "pre = sequencer ?rf ?rt (?rf = []) (early_stages cfg)"
  define r1 where "r1 = check_label a' ?rf ?rt ''fine''"
  define r2 where "r2 = check_label r1 ?rf ?rt ''map_luts''"
  define post where
    "post = (if r2 then map Called (map_luts_cmds cfg) else [])
       @ sequencer ?rf ?rt r2 (late_stages cfg)"
  have shape: "fst (execute cfg sel) =
      pre @ Checked ''fine'' r1 # (if r1 then map Called (fine_cmds cfg) else [])
          @ Checked ''map_luts'' r2 # post"
    by (simp add: tr split pre_def r1_def r2_def post_def Let_def)
  have r1: "r1"
  proof (rule ccontr)
    assume "\<not> r1"
    with act shape have "Checked ''fine'' True \<in> set pre \<or> Checked ''fine'' True \<in> set post"
      by auto
    then show False
      by (auto simp: pre_def post_def no_fine_early no_fine_late split: if_splits)
  qed
  have "Called ''abc -dff'' \<notin> set pre"
    by (simp add: pre_def no_abc_early)
  moreover have "Called ''abc -dff'' \<notin> set post"
    using no_abc_map_luts [of cfg] by (auto simp: post_def no_abc_late)
  moreover have "fst (execute cfg sel) =
           pre @ [Checked ''fine'' True, Called ''greenpak4_counters'', Called ''clean'',
             Called ''opt -fast -mux_undef -undriven -fine'', Called ''memory_map'',
             Called ''opt -undriven -fine'', Called ''techmap'',
             Called ''dfflibmap -prepare -liberty +/greenpak4/gp_dff.lib'',
             Called ''opt -fast'', Called ''abc -dff'', Checked ''map_luts'' r2] @ post"
    using r1 rt by (simp add: shape fine_cmds_def)
  ultimately show ?thesis by blast
qed

section \<open>The claims\<close>

text \<open>
  C1. With part \<open>SLG46621V\<close>, no run range, flattening on, retiming off and the JSON file
  \<open>/tmp/out.json\<close>, run on a fully selected design (for any \<^verbatim>\<open>-top\<close> option), all eight
  labels are checked in the order \<open>begin\<close>, \<open>flatten\<close>, \<open>coarse\<close>, \<open>fine\<close>, \<open>map_luts\<close>,
  \<open>map_cells\<close>, \<open>check\<close>, \<open>json\<close>, each check answers active and is followed by the
  commands of its block, the \<open>map_luts\<close> block calls \<open>nlutmap -luts 2,8,16,2\<close>, and the
  last command is \<open>write_json /tmp/out.json\<close>. The run ends without an error.
\<close>

theorem C1_default_flow_runs_all_stages:
  "execute \<lparr>top_opt = t, part = ''SLG46621V'', run_from = [], run_to = [],
       json_file = ''/tmp/out.json'', flatten = True, retime = False\<rparr> True =
     ([Checked ''begin'' True,
         Called ''read_verilog -lib +/greenpak4/cells_sim.v'',
         Called (''hierarchy -check '' @ c_str t),
       Checked ''flatten'' True,
         Called ''proc'', Called ''flatten'', Called ''tribuf -logic'',
       Checked ''coarse'' True,
         Called ''synth -run coarse'',
       Checked ''fine'' True,
         Called ''greenpak4_counters'', Called ''clean'',
         Called ''opt -fast -mux_undef -undriven -fine'', Called ''memory_map'',
         Called ''opt -undriven -fine'', Called ''techmap'',
         Called ''dfflibmap -prepare -liberty +/greenpak4/gp_dff.lib'', Called ''opt -fast'',
       Checked ''map_luts'' True,
         Called ''nlutmap -luts 2,8,16,2'', Called ''clean'',
       Checked ''map_cells'' True,
         Called ''dfflibmap -liberty +/greenpak4/gp_dff.lib'',
         Called ''techmap -map +/greenpak4/cells_map.v'',
         Called ''dffinit -ff GP_DFF Q INIT'', Called ''dffinit -ff GP_DFFR Q INIT'',
         Called ''dffinit -ff GP_DFFS Q INIT'', Called ''dffinit -ff GP_DFFSR Q INIT'',
         Called ''clean'',
       Checked ''check'' True,
         Called ''hierarchy -check'', Called ''stat'', Called ''check -noinit'',
       Checked ''json'' True,
         Called ''splitnets'', Called ''write_json /tmp/out.json''],
      None)"
  by (simp add: execute_sequencer table_defs check_label_def c_str_def)

theorem C1_default_flow_witness:
  "last (calls (fst (execute \<lparr>top_opt = ''-auto-top'', part = ''SLG46621V'', run_from = [],
       run_to = [], json_file = ''/tmp/out.json'', flatten = True, retime = False\<rparr> True)))
     = ''write_json /tmp/out.json''
   \<and> ''nlutmap -luts 2,8,16,2''
       \<in> set (calls (fst (execute \<lparr>top_opt = ''-auto-top'', part = ''SLG46621V'',
            run_from = [], run_to = [], json_file = ''/tmp/out.json'', flatten = True,
            retime = False\<rparr> True)))"
  using C1_default_flow_runs_all_stages [of "''-auto-top''"]
  by simp

text \<open>
  C2. With \<open>run_from = "fine"\<close> and \<open>run_to = "fine"\<close> no command is dispatched and no call
  of \<^verbatim>\<open>check_label\<close> answers active, whatever the other options and the selection are;
  and \<^verbatim>\<open>check_label\<close> called for the label that is both ends of the range returns
  false from either value of \<^verbatim>\<open>active\<close>: it sets the flag and clears it in the same call.
\<close>

theorem C2_fine_to_fine_runs_nothing:
  assumes "run_from cfg = ''fine''" and "run_to cfg = ''fine''"
  shows "calls (fst (execute cfg sel)) = []
       \<and> Checked l True \<notin> set (fst (execute cfg sel))
       \<and> check_label a (run_from cfg) (run_to cfg) ''fine'' = False"
  using assms
  by (simp add: execute_sequencer sequencer_closed_window sequencer_closed_window_checks
      check_label_same)

theorem C2_fine_to_fine_witness:
  "calls (fst (execute (default_config\<lparr>run_from := ''fine'', run_to := ''fine''\<rparr>) True)) = []
   \<and> check_label True ''fine'' ''fine'' ''fine'' = False"
  using C2_fine_to_fine_runs_nothing
    [of "default_config\<lparr>run_from := ''fine'', run_to := ''fine''\<rparr>" True _ True]
  by simp

text \<open>
  C3, as stated: the tracker is consulted at all eight stage boundaries for every
  configuration. It is not: with \<^verbatim>\<open>-noflatten\<close> the label \<open>flatten\<close> is never handed to
  \<^verbatim>\<open>check_label\<close>. Here \<open>run_from = "flatten"\<close>; seven labels are checked, and the trace
  is not the one of a sequencer that walks all eight stages.
\<close>

theorem C3_noflatten_skips_label_check:
  "checks (fst (execute (default_config\<lparr>run_from := ''flatten'', flatten := False\<rparr>) True))
     = [''begin'', ''coarse'', ''fine'', ''map_luts'', ''map_cells'', ''check'', ''json'']
   \<and> checks (fst (execute (default_config\<lparr>run_from := ''flatten'', flatten := False\<rparr>) True))
     \<noteq> stage_labels"
  by (simp add: default_config_def execute_sequencer sequencer_checks consulted_labels_eq
      stage_labels_def)

text \<open>
  C3, amended. For a known part and a fully selected design \<^verbatim>\<open>execute\<close> is the sequencer
  on the consulted stages: it checks the labels \<open>begin\<close>, \<open>coarse\<close>, \<open>fine\<close>, \<open>map_luts\<close>,
  \<open>map_cells\<close>, \<open>check\<close>, \<open>json\<close> once each in this order, and \<open>flatten\<close> (after \<open>begin\<close>)
  only when flattening is enabled; every check updates the active flag, and the body of a
  checked stage is dispatched right after its check if and only if the check answered
  active.
\<close>

theorem C3_sequencer_on_consulted_stages:
  assumes "part cfg = ''SLG46140V'' \<or> part cfg = ''SLG46620V'' \<or> part cfg = ''SLG46621V''"
  shows "execute cfg True =
           (sequencer (run_from cfg) (run_to cfg) (run_from cfg = []) (consulted_stages cfg),
            None)
       \<and> checks (fst (execute cfg True)) =
           ''begin'' # (if flatten cfg then [''flatten''] else [])
           @ [''coarse'', ''fine'', ''map_luts'', ''map_cells'', ''check'', ''json'']"
proof -
  note tr = execute_accepted [OF assms]
  have "checks (fst (execute cfg True)) = map fst (consulted_stages cfg)"
    by (simp add: tr sequencer_checks)
  then show ?thesis
    using tr by (simp add: consulted_labels_eq)
qed

theorem C3_sequencer_witness:
  "execute (default_config\<lparr>run_from := ''check'', run_to := ''json'', flatten := False\<rparr>) True
     = ([Checked ''begin'' False, Checked ''coarse'' False, Checked ''fine'' False,
         Checked ''map_luts'' False, Checked ''map_cells'' False,
         Checked ''check'' True,
           Called ''hierarchy -check'', Called ''stat'', Called ''check -noinit'',
         Checked ''json'' False],
        None)"
  using C3_sequencer_on_consulted_stages
    [of "default_config\<lparr>run_from := ''check'', run_to := ''json'', flatten := False\<rparr>"]
  by (simp add: default_config_def table_defs check_label_def)

text \<open>
  C4, as stated: with part \<open>SLG46140V\<close> and the range \<open>map_luts:check\<close> only the block
  \<open>map_luts\<close> runs. It does not stop there: the flag set at \<open>map_luts\<close> is still set at
  \<open>map_cells\<close>, whose label is neither end of the range, so the seven commands of
  \<open>map_cells\<close> run as well.
\<close>

theorem C4_map_cells_runs_too:
  "calls (fst (execute (default_config\<lparr>part := ''SLG46140V'', run_from := ''map_luts'',
       run_to := ''check''\<rparr>) True))
     = [''nlutmap -luts 0,6,8,2'', ''clean'',
        ''dfflibmap -liberty +/greenpak4/gp_dff.lib'',
        ''techmap -map +/greenpak4/cells_map.v'',
        ''dffinit -ff GP_DFF Q INIT'', ''dffinit -ff GP_DFFR Q INIT'',
        ''dffinit -ff GP_DFFS Q INIT'', ''dffinit -ff GP_DFFSR Q INIT'',
        ''clean'']
   \<and> calls (fst (execute (default_config\<lparr>part := ''SLG46140V'', run_from := ''map_luts'',
       run_to := ''check''\<rparr>) True))
     \<noteq> [''nlutmap -luts 0,6,8,2'', ''clean'']"
  by (simp add: default_config_def execute_sequencer table_defs check_label_def)

text \<open>
  C4, amended. With part \<open>SLG46140V\<close> and the range \<open>map_luts:check\<close>, on a fully selected
  design and for every value of the other options, exactly two blocks run: \<open>map_luts\<close>,
  which calls \<open>nlutmap -luts 0,6,8,2\<close> and \<open>clean\<close>, and then \<open>map_cells\<close>. The checks of
  \<open>begin\<close>, \<open>flatten\<close> (made only when flattening is enabled), \<open>coarse\<close>, \<open>fine\<close>,
  \<open>check\<close> and \<open>json\<close> answer inactive and dispatch nothing.
\<close>

theorem C4_map_luts_to_check:
  assumes "part cfg = ''SLG46140V''" and "run_from cfg = ''map_luts''"
    and "run_to cfg = ''check''"
  shows "execute cfg True =
     (Checked ''begin'' False
      # (if flatten cfg then [Checked ''flatten'' False] else [])
      @ [Checked ''coarse'' False,
         Checked ''fine'' False,
         Checked ''map_luts'' True,
           Called ''nlutmap -luts 0,6,8,2'', Called ''clean'',
         Checked ''map_cells'' True,
           Called ''dfflibmap -liberty +/greenpak4/gp_dff.lib'',
           Called ''techmap -map +/greenpak4/cells_map.v'',
           Called ''dffinit -ff GP_DFF Q INIT'', Called ''dffinit -ff GP_DFFR Q INIT'',
           Called ''dffinit -ff GP_DFFS Q INIT'', Called ''dffinit -ff GP_DFFSR Q INIT'',
           Called ''clean'',
         Checked ''check'' False, Checked ''json'' False],
      None)"
  using assms
  by (simp add: execute_sequencer table_defs check_label_def)

theorem C4_map_luts_to_check_witness:
  "checks (fst (execute (default_config\<lparr>part := ''SLG46140V'', run_from := ''map_luts'',
       run_to := ''check'', json_file := ''out.json'', flatten := False,
       retime := True\<rparr>) True))
     = [''begin'', ''coarse'', ''fine'', ''map_luts'', ''map_cells'', ''check'', ''json'']
   \<and> length (calls (fst (execute (default_config\<lparr>part := ''SLG46140V'',
       run_from := ''map_luts'', run_to := ''check'', json_file := ''out.json'',
       flatten := False, retime := True\<rparr>) True))) = 9"
  using C4_map_luts_to_check
    [of "default_config\<lparr>part := ''SLG46140V'', run_from := ''map_luts'',
       run_to := ''check'', json_file := ''out.json'', flatten := False, retime := True\<rparr>"]
  by (simp add: default_config_def)

text \<open>
  C5, as stated: with an empty run range every stage body runs, \<open>flatten\<close> included. With
  \<^verbatim>\<open>-noflatten\<close> and an empty range the label \<open>flatten\<close> is not checked and \<open>proc\<close> is never
  called, so the trace is not the one in which all eight stages are active.
\<close>

theorem C5_noflatten_omits_flatten_body:
  "checks (fst (execute (default_config\<lparr>flatten := False\<rparr>) True))
     = [''begin'', ''coarse'', ''fine'', ''map_luts'', ''map_cells'', ''check'', ''json'']
   \<and> ''proc'' \<notin> set (calls (fst (execute (default_config\<lparr>flatten := False\<rparr>) True)))
   \<and> fst (execute (default_config\<lparr>flatten := False\<rparr>) True)
     \<noteq> all_active (all_stages (default_config\<lparr>flatten := False\<rparr>))"
  by (simp add: default_config_def execute_sequencer table_defs check_label_def c_str_def)

text \<open>
  C5, amended. With an empty run range, a known part and a fully selected design, every
  consulted stage is active and its body runs exactly once, in the order \<open>begin\<close>,
  \<open>flatten\<close>, \<open>coarse\<close>, \<open>fine\<close>, \<open>map_luts\<close>, \<open>map_cells\<close>, \<open>check\<close>, \<open>json\<close>, where
  \<open>flatten\<close> is consulted, and so run, only when flattening is enabled. The run ends
  without an error.
\<close>

theorem C5_empty_range_runs_consulted_stages:
  assumes "run_from cfg = []" and "run_to cfg = []"
    and "part cfg = ''SLG46140V'' \<or> part cfg = ''SLG46620V'' \<or> part cfg = ''SLG46621V''"
  shows "execute cfg True = (all_active (consulted_stages cfg), None)
       \<and> calls (fst (execute cfg True)) =
           begin_cmds cfg @ (if flatten cfg then flatten_cmds else []) @ coarse_cmds
           @ fine_cmds cfg @ map_luts_cmds cfg @ map_cells_cmds @ check_cmds @ json_cmds cfg"
proof -
  have "sequencer [] [] True (consulted_stages cfg) = all_active (consulted_stages cfg)"
    using consulted_labels_nonempty by (rule sequencer_all_active)
  with assms(1,2) execute_accepted [OF assms(3)]
  have tr: "execute cfg True = (all_active (consulted_stages cfg), None)"
    by simp
  then have "calls (fst (execute cfg True)) = concat (map snd (consulted_stages cfg))"
    by (simp add: calls_all_active)
  with tr show ?thesis
    by (simp only: consulted_bodies simp_thms)
qed

theorem C5_empty_range_witness:
  "checks (fst (execute default_config True)) = stage_labels
   \<and> calls (fst (execute default_config True)) =
       [''read_verilog -lib +/greenpak4/cells_sim.v'', ''hierarchy -check -auto-top'',
        ''proc'', ''flatten'', ''tribuf -logic'',
        ''synth -run coarse'',
        ''greenpak4_counters'', ''clean'', ''opt -fast -mux_undef -undriven -fine'',
        ''memory_map'', ''opt -undriven -fine'', ''techmap'',
        ''dfflibmap -prepare -liberty +/greenpak4/gp_dff.lib'', ''opt -fast'',
        ''nlutmap -luts 2,8,16,2'', ''clean'',
        ''dfflibmap -liberty +/greenpak4/gp_dff.lib'',
        ''techmap -map +/greenpak4/cells_map.v'',
        ''dffinit -ff GP_DFF Q INIT'', ''dffinit -ff GP_DFFR Q INIT'',
        ''dffinit -ff GP_DFFS Q INIT'', ''dffinit -ff GP_DFFSR Q INIT'', ''clean'',
        ''hierarchy -check'', ''stat'', ''check -noinit'',
        ''splitnets'']"
  using C5_empty_range_runs_consulted_stages [of default_config]
  by (simp add: default_config_def table_defs stage_labels_def c_str_def)

text \<open>
  C6. A part name other than the three known ones ends \<^verbatim>\<open>execute\<close> with an error before
  the first block: the trace is empty, so no label was checked and no command was run on
  the design. The error is the one about the part name when the design is fully selected,
  and the one about the selection (raised first, line 165) when it is not.
\<close>

theorem C6_unknown_part_rejected:
  assumes "part cfg \<noteq> ''SLG46140V''" and "part cfg \<noteq> ''SLG46620V''"
    and "part cfg \<noteq> ''SLG46621V''"
  shows "execute cfg sel =
           ([], Some (if sel then Invalid_part (part cfg) else Not_fully_selected))"
  using assms by (simp add: execute_def)

theorem C6_unknown_part_witness:
  "execute (default_config\<lparr>part := ''SLG46533V''\<rparr>) True
     = ([], Some (Invalid_part ''SLG46533V''))"
  using C6_unknown_part_rejected [of "default_config\<lparr>part := ''SLG46533V''\<rparr>" True]
  by (simp add: default_config_def)

text \<open>
  C7. With \<^verbatim>\<open>-noflatten\<close> none of the three commands of the \<open>flatten\<close> block (\<open>proc\<close>,
  \<open>flatten\<close>, \<open>tribuf -logic\<close>) is ever run, for every run range, every other option and
  either state of the selection.
\<close>

theorem C7_noflatten_never_flattens:
  assumes "\<not> flatten cfg"
  shows "''proc'' \<notin> set (calls (fst (execute cfg sel)))
       \<and> ''flatten'' \<notin> set (calls (fst (execute cfg sel)))
       \<and> ''tribuf -logic'' \<notin> set (calls (fst (execute cfg sel)))"
  using trace_cases [of cfg sel] noflatten_bodies [OF assms]
  by (auto simp: set_calls dest!: sequencer_Called)

theorem C7_noflatten_witness:
  "''proc'' \<notin> set (calls (fst (execute
       (default_config\<lparr>run_from := ''begin'', run_to := ''coarse'', flatten := False\<rparr>) True)))
   \<and> ''flatten'' \<notin> set (calls (fst (execute
       (default_config\<lparr>run_from := ''begin'', run_to := ''coarse'', flatten := False\<rparr>) True)))
   \<and> ''tribuf -logic'' \<notin> set (calls (fst (execute
       (default_config\<lparr>run_from := ''begin'', run_to := ''coarse'', flatten := False\<rparr>) True)))"
  using C7_noflatten_never_flattens
    [of "default_config\<lparr>run_from := ''begin'', run_to := ''coarse'', flatten := False\<rparr>" True]
  by (simp add: default_config_def)

text \<open>
  C8. Without \<^verbatim>\<open>-retime\<close> the command \<open>abc -dff\<close> is never run. With \<^verbatim>\<open>-retime\<close>, in a
  run whose check of the label \<open>fine\<close> answered active, \<open>abc -dff\<close> is run exactly once:
  the trace has the check of \<open>fine\<close>, the eight fixed commands of the block ending in
  \<open>opt -fast\<close>, then \<open>abc -dff\<close>, and the very next event is the check of the label
  \<open>map_luts\<close>, so the command closes the \<open>fine\<close> block and precedes every command of
  \<open>map_luts\<close>.
\<close>

theorem C8_retime_runs_abc_once_after_opt_fast:
  "(\<not> retime cfg \<longrightarrow> Called ''abc -dff'' \<notin> set (fst (execute cfg sel)))
   \<and> (retime cfg \<and> Checked ''fine'' True \<in> set (fst (execute cfg sel)) \<longrightarrow>
        count_list (fst (execute cfg sel)) (Called ''abc -dff'') = 1
        \<and> (\<exists>pre post r. fst (execute cfg sel) =
             pre @ [Checked ''fine'' True, Called ''greenpak4_counters'', Called ''clean'',
               Called ''opt -fast -mux_undef -undriven -fine'', Called ''memory_map'',
               Called ''opt -undriven -fine'', Called ''techmap'',
               Called ''dfflibmap -prepare -liberty +/greenpak4/gp_dff.lib'',
               Called ''opt -fast'', Called ''abc -dff'', Checked ''map_luts'' r] @ post))"
proof (intro conjI impI)
  assume "\<not> retime cfg"
  then show "Called ''abc -dff'' \<notin> set (fst (execute cfg sel))"
    by (rule no_retime_no_abc)
next
  assume h: "retime cfg \<and> Checked ''fine'' True \<in> set (fst (execute cfg sel))"
  from h have "retime cfg" and "Checked ''fine'' True \<in> set (fst (execute cfg sel))"
    by simp_all
  from retime_fine [OF this] obtain pre post r where
    eq: "fst (execute cfg sel) =
           pre @ [Checked ''fine'' True, Called ''greenpak4_counters'', Called ''clean'',
             Called ''opt -fast -mux_undef -undriven -fine'', Called ''memory_map'',
             Called ''opt -undriven -fine'', Called ''techmap'',
             Called ''dfflibmap -prepare -liberty +/greenpak4/gp_dff.lib'',
             Called ''opt -fast'', Called ''abc -dff'', Checked ''map_luts'' r] @ post"
    and pre: "Called ''abc -dff'' \<notin> set pre" and post: "Called ''abc -dff'' \<notin> set post"
    by (elim exE conjE)
  from pre have p0: "count_list pre (Called ''abc -dff'') = 0"
    by (simp add: count_list_0_iff)
  from post have q0: "count_list post (Called ''abc -dff'') = 0"
    by (simp add: count_list_0_iff)
  show "count_list (fst (execute cfg sel)) (Called ''abc -dff'') = 1"
    unfolding eq count_list_app by (simp add: p0 q0)
  from eq show "\<exists>pre post r. fst (execute cfg sel) =
             pre @ [Checked ''fine'' True, Called ''greenpak4_counters'', Called ''clean'',
               Called ''opt -fast -mux_undef -undriven -fine'', Called ''memory_map'',
               Called ''opt -undriven -fine'', Called ''techmap'',
               Called ''dfflibmap -prepare -liberty +/greenpak4/gp_dff.lib'',
               Called ''opt -fast'', Called ''abc -dff'', Checked ''map_luts'' r] @ post"
    by (intro exI)
qed

theorem C8_retime_witness:
  "count_list (fst (execute (default_config\<lparr>run_from := ''coarse'', run_to := ''check'',
       retime := True\<rparr>) True)) (Called ''abc -dff'') = 1
   \<and> Called ''abc -dff'' \<notin> set (fst (execute (default_config\<lparr>run_from := ''coarse'',
       run_to := ''check''\<rparr>) True))"
proof -
  have a: "Checked ''fine'' True \<in> set (fst (execute (default_config\<lparr>run_from := ''coarse'',
       run_to := ''check'', retime := True\<rparr>) True))"
    by (simp add: default_config_def execute_sequencer table_defs check_label_def)
  have r: "retime (default_config\<lparr>run_from := ''coarse'', run_to := ''check'',
       retime := True\<rparr>)"
    by simp
  have n: "\<not> retime (default_config\<lparr>run_from := ''coarse'', run_to := ''check''\<rparr>)"
    by (simp add: default_config_def)
  note one = C8_retime_runs_abc_once_after_opt_fast
    [of "default_config\<lparr>run_from := ''coarse'', run_to := ''check'', retime := True\<rparr>" True,
      THEN conjunct2, THEN mp, OF conjI [OF r a], THEN conjunct1]
  note none = C8_retime_runs_abc_once_after_opt_fast
    [of "default_config\<lparr>run_from := ''coarse'', run_to := ''check''\<rparr>" True,
      THEN conjunct1, THEN mp, OF n]
  from one none show ?thesis by (rule conjI)
qed

text \<open>
  C9. For a known part and a fully selected design the run ends without an error whatever
  the two labels of the run range are, and every consulted label is checked. If
  \<open>run_from\<close> is not empty and is none of the eight stage labels, no check turns the flag
  on and no command is run. If \<open>run_to\<close> is none of the eight stage labels, no check turns
  the flag off.
\<close>

theorem C9_unmatched_labels_are_no_error:
  assumes "part cfg = ''SLG46140V'' \<or> part cfg = ''SLG46620V'' \<or> part cfg = ''SLG46621V''"
  shows "snd (execute cfg True) = None
       \<and> checks (fst (execute cfg True)) = map fst (consulted_stages cfg)
       \<and> (run_from cfg \<noteq> [] \<and> run_from cfg \<notin> set stage_labels \<longrightarrow>
            calls (fst (execute cfg True)) = []
            \<and> activations False (fst (execute cfg True)) = 0)
       \<and> (run_to cfg \<notin> set stage_labels \<longrightarrow>
            deactivations (run_from cfg = []) (fst (execute cfg True)) = 0)"
proof -
  note tr = execute_accepted [OF assms]
  have b: "calls (fst (execute cfg True)) = [] \<and> activations False (fst (execute cfg True)) = 0"
    if "run_from cfg \<noteq> []" and "run_from cfg \<notin> set stage_labels"
  proof -
    from that(2) consulted_labels [of cfg]
    have "run_from cfg \<notin> fst ` set (consulted_stages cfg)"
      by blast
    with that(1) show ?thesis
      by (simp add: tr sequencer_stays_closed sequencer_never_opens)
  qed
  have c: "deactivations (run_from cfg = []) (fst (execute cfg True)) = 0"
    if "run_to cfg \<notin> set stage_labels"
  proof -
    from that consulted_labels [of cfg]
    have "run_to cfg \<notin> fst ` set (consulted_stages cfg)"
      by blast
    then show ?thesis
      by (simp add: tr sequencer_never_closes)
  qed
  from b c show ?thesis
    by (simp add: tr sequencer_checks)
qed

theorem C9_unmatched_labels_witness:
  "snd (execute (default_config\<lparr>run_from := ''synth''\<rparr>) True) = None
   \<and> calls (fst (execute (default_config\<lparr>run_from := ''synth''\<rparr>) True)) = []
   \<and> snd (execute (default_config\<lparr>run_to := ''end''\<rparr>) True) = None
   \<and> deactivations True (fst (execute (default_config\<lparr>run_to := ''end''\<rparr>) True)) = 0"
  using C9_unmatched_labels_are_no_error [of "default_config\<lparr>run_from := ''synth''\<rparr>"]
    C9_unmatched_labels_are_no_error [of "default_config\<lparr>run_to := ''end''\<rparr>"]
  by (simp add: default_config_def stage_labels_def)

text \<open>
  C10. With \<^verbatim>\<open>-noflatten\<close> the label \<open>flatten\<close> is never handed to \<^verbatim>\<open>check_label\<close>.
  So with \<open>run_from = "flatten"\<close> no check turns the flag on and no command is run, for
  every \<open>run_to\<close>; and with \<open>run_to = "flatten"\<close> no check turns the flag off.
\<close>

theorem C10_noflatten_label_is_never_checked:
  assumes "\<not> flatten cfg"
  shows "''flatten'' \<notin> set (checks (fst (execute cfg sel)))
       \<and> (run_from cfg = ''flatten'' \<longrightarrow>
            calls (fst (execute cfg sel)) = [] \<and> activations False (fst (execute cfg sel)) = 0)
       \<and> (run_to cfg = ''flatten'' \<longrightarrow>
            deactivations (run_from cfg = []) (fst (execute cfg sel)) = 0)"
proof -
  let ?tr = "fst (execute cfg sel)"
  from assms have nf: "''flatten'' \<notin> fst ` set (consulted_stages cfg)"
    by (rule consulted_labels_noflatten)
  have a: "''flatten'' \<notin> set (checks ?tr)"
    using trace_cases [of cfg sel] nf by (auto simp: sequencer_checks)
  have b: "calls ?tr = [] \<and> activations False ?tr = 0" if "run_from cfg = ''flatten''"
    using trace_cases [of cfg sel] nf that
    by (auto simp: sequencer_stays_closed sequencer_never_opens)
  have c: "deactivations (run_from cfg = []) ?tr = 0" if "run_to cfg = ''flatten''"
    using trace_cases [of cfg sel] nf that
    by (auto simp: sequencer_never_closes)
  from a b c show ?thesis by blast
qed

theorem C10_noflatten_witness:
  "''flatten'' \<notin> set (checks (fst (execute
       (default_config\<lparr>run_from := ''flatten'', flatten := False\<rparr>) True)))
   \<and> calls (fst (execute
       (default_config\<lparr>run_from := ''flatten'', flatten := False\<rparr>) True)) = []
   \<and> deactivations True (fst (execute
       (default_config\<lparr>run_to := ''flatten'', flatten := False\<rparr>) True)) = 0"
  using C10_noflatten_label_is_never_checked
      [of "default_config\<lparr>run_from := ''flatten'', flatten := False\<rparr>" True]
    C10_noflatten_label_is_never_checked
      [of "default_config\<lparr>run_to := ''flatten'', flatten := False\<rparr>" True]
  by (simp add: default_config_def)

section \<open>Further properties\<close>

text \<open>
  X1. With \<open>run_from = "fine"\<close> and no \<open>run_to\<close>, for a known part and a fully selected
  design, the checks of \<open>begin\<close>, \<open>flatten\<close> (made only when flattening is enabled) and
  \<open>coarse\<close> answer inactive and dispatch nothing, and the blocks \<open>fine\<close>, \<open>map_luts\<close>,
  \<open>map_cells\<close>, \<open>check\<close> and \<open>json\<close> all run, in this order.
\<close>

theorem X1_run_from_fine:
  assumes "run_from cfg = ''fine''" and "run_to cfg = []"
    and "part cfg = ''SLG46140V'' \<or> part cfg = ''SLG46620V'' \<or> part cfg = ''SLG46621V''"
  shows "execute cfg True =
     (Checked ''begin'' False
      # (if flatten cfg then [Checked ''flatten'' False] else [])
      @ Checked ''coarse'' False
      # all_active [(''fine'', fine_cmds cfg), (''map_luts'', map_luts_cmds cfg),
          (''map_cells'', map_cells_cmds), (''check'', check_cmds), (''json'', json_cmds cfg)],
      None)"
  using assms(1,2) execute_accepted [OF assms(3)]
  by (simp add: consulted_stages_def later_stages_def check_label_def)

theorem X1_run_from_fine_witness:
  "calls (fst (execute (default_config\<lparr>run_from := ''fine''\<rparr>) True)) =
     [''greenpak4_counters'', ''clean'', ''opt -fast -mux_undef -undriven -fine'',
      ''memory_map'', ''opt -undriven -fine'', ''techmap'',
      ''dfflibmap -prepare -liberty +/greenpak4/gp_dff.lib'', ''opt -fast'',
      ''nlutmap -luts 2,8,16,2'', ''clean'',
      ''dfflibmap -liberty +/greenpak4/gp_dff.lib'',
      ''techmap -map +/greenpak4/cells_map.v'',
      ''dffinit -ff GP_DFF Q INIT'', ''dffinit -ff GP_DFFR Q INIT'',
      ''dffinit -ff GP_DFFS Q INIT'', ''dffinit -ff GP_DFFSR Q INIT'', ''clean'',
      ''hierarchy -check'', ''stat'', ''check -noinit'',
      ''splitnets'']"
  using X1_run_from_fine [of "default_config\<lparr>run_from := ''fine''\<rparr>"]
  by (simp add: default_config_def table_defs)

text \<open>
  X2. When the check of the label \<open>map_luts\<close> answers active, the block runs one
  \<open>nlutmap\<close> command chosen by the part, \<open>-luts 0,6,8,2\<close> for \<open>SLG46140V\<close> and
  \<open>-luts 2,8,16,2\<close> for \<open>SLG46620V\<close> and \<open>SLG46621V\<close>, and then \<open>clean\<close>.
\<close>

theorem X2_map_luts_budget_by_part:
  assumes "check_label (active s) (run_from cfg) (run_to cfg) ''map_luts''"
  shows "calls (trace (stage_map_luts cfg s)) =
     calls (trace s)
     @ (if part cfg = ''SLG46140V'' then [''nlutmap -luts 0,6,8,2'']
        else if part cfg = ''SLG46620V'' \<or> part cfg = ''SLG46621V''
          then [''nlutmap -luts 2,8,16,2'']
        else [])
     @ [''clean'']"
  using assms
  by (simp add: stage_map_luts_trace map_luts_cmds_def calls_append)

theorem X2_map_luts_budget_witness:
  "calls (trace (stage_map_luts (default_config\<lparr>part := ''SLG46620V''\<rparr>)
      \<lparr>active = True, trace = []\<rparr>)) = [''nlutmap -luts 2,8,16,2'', ''clean'']"
  using X2_map_luts_budget_by_part
    [of "\<lparr>active = True, trace = []\<rparr>" "default_config\<lparr>part := ''SLG46620V''\<rparr>"]
  by (simp add: default_config_def check_label_def)

end
